theory Spec2Isabelle
  imports Complex_Main
begin

section \<open>The booking engine of the hotel reservation API\<close>

text \<open>
  A shallow embedding of the booking controller (\<^verbatim>\<open>createBooking\<close>,
  \<^verbatim>\<open>updateBookingStatus\<close>, \<^verbatim>\<open>updatePaymentStatus\<close>, \<^verbatim>\<open>cancelBooking\<close>), of the
  availability queries (\<^verbatim>\<open>getRoomAvailability\<close> of the room controller and
  \<^verbatim>\<open>checkRoomAvailability\<close> of \<^verbatim>\<open>utils/apiHelpers.js\<close>), of the Booking schema
  (\<^verbatim>\<open>models/Booking.js\<close>) and of the payment route (\<^verbatim>\<open>routes/bookings.js\<close>).

  Conventions of the model.
  \<^item> A JavaScript \<^verbatim>\<open>Date\<close> is its number of milliseconds since the epoch, an \<open>int\<close>.
  \<^item> A JavaScript number that carries money is a \<open>rat\<close>: arithmetic is exact, the
    rounding error of IEEE doubles is not modelled. Guest and occupancy counts are \<open>int\<close>.
  \<^item> A value that may be \<^verbatim>\<open>undefined\<close> is an \<open>option\<close>.
  \<^item> The document database is a list of room documents and a list of booking documents;
    \<^verbatim>\<open>findById\<close> is a lookup by \<open>oid\<close>, \<^verbatim>\<open>save\<close> runs the schema's pre-save hook and
    writes the document back (or appends a new one).
  \<^item> What the code draws from its environment (the clock, the fresh object id, the random
    identifier strings) is the record \<open>env\<close>.
  \<^item> A handler returns \<open>Inl failure\<close> for an error response and \<open>Inr document\<close> for a
    success response, together with the store after the request.
  \<^item> The push notification to the admin room, the logging and \<^verbatim>\<open>populate\<close> (which
    resolves the room reference in the response) are not modelled.
  \<^item> \<^verbatim>\<open>models/Booking.js\<close> holds two variants of the Booking schema. They declare the
    same paths and the same defaults; the second adds validators (required paths, enums,
    bounds). The model follows the paths and defaults and leaves the validators out: under
    the second variant no document built by \<^verbatim>\<open>createBooking\<close> could be saved at all,
    since the handler never sets the required path \<^verbatim>\<open>paymentInfo.paymentMethod\<close>.
\<close>

subsection \<open>JavaScript values and object literals\<close>

datatype jsval = JUndefined | JStr string | JNum rat | JDate int | JBool bool

type_synonym jsobject = "(string \<times> jsval) list"

definition js_prop :: "jsobject \<Rightarrow> string \<Rightarrow> jsval" where
  \<comment> \<open>\<^verbatim>\<open>obj[key]\<close>\<close>
  "js_prop obj key = (case map_of obj key of None \<Rightarrow> JUndefined | Some v \<Rightarrow> v)"

fun castString :: "jsval \<Rightarrow> string option" where
  "castString (JStr s) = Some s"
| "castString _ = None"

fun castNumber :: "jsval \<Rightarrow> rat option" where
  "castNumber (JNum n) = Some n"
| "castNumber _ = None"

fun castDate :: "jsval \<Rightarrow> int option" where
  "castDate (JDate d) = Some d"
| "castDate _ = None"

fun castBool :: "jsval \<Rightarrow> bool option" where
  "castBool (JBool b) = Some b"
| "castBool _ = None"

definition or_else :: "'a::zero option \<Rightarrow> 'a \<Rightarrow> 'a" where
  \<comment> \<open>\<^verbatim>\<open>a || d\<close> on numbers: \<^verbatim>\<open>undefined\<close> and \<^verbatim>\<open>0\<close> are falsy.\<close>
  "or_else a d = (case a of None \<Rightarrow> d | Some v \<Rightarrow> if v = 0 then d else v)"

definition or_else_str :: "string option \<Rightarrow> string \<Rightarrow> string" where
  \<comment> \<open>\<^verbatim>\<open>a || d\<close> on strings: \<^verbatim>\<open>undefined\<close> and the empty string are falsy.\<close>
  "or_else_str a d = (case a of None \<Rightarrow> d | Some s \<Rightarrow> if s = [] then d else s)"

subsection \<open>Documents\<close>

type_synonym objectId = nat
type_synonym date = int

text \<open>
  The room document, as \<^verbatim>\<open>createBooking\<close> and \<^verbatim>\<open>getRoomAvailability\<close> read it:
  \<^verbatim>\<open>isAvailable\<close>, \<^verbatim>\<open>pricePerNight\<close>, \<^verbatim>\<open>pricing.basePrice\<close>, \<^verbatim>\<open>maxOccupancy\<close> and
  \<^verbatim>\<open>availability.maxOccupancy\<close>.
\<close>

record room =
  room_oid :: objectId
  room_isAvailable :: bool
  room_pricePerNight :: "rat option"
  room_pricing_basePrice :: "rat option"
  room_maxOccupancy :: "int option"
  room_availability_maxOccupancy :: "int option"

record address =
  street :: string
  city :: string
  addr_state :: string
  zipCode :: string
  country :: string

record guestInfo =
  firstName :: string
  lastName :: string
  email :: string
  phone :: string
  address :: address
  specialRequests :: string

text \<open>The paths the Booking schema declares under \<^verbatim>\<open>pricing\<close>, \<^verbatim>\<open>paymentInfo\<close> and
  \<^verbatim>\<open>cancellation\<close>, with the schema's defaults (\<^verbatim>\<open>fees\<close> 0, \<^verbatim>\<open>currency\<close> USD,
  \<^verbatim>\<open>paymentStatus\<close> pending, \<^verbatim>\<open>isCancelled\<close> false).\<close>

record pricing =
  pricePerNight :: "rat option"
  subtotal :: "rat option"
  taxes :: "rat option"
  fees :: rat
  totalAmount :: "rat option"
  currency :: string

record paymentInfo =
  paymentMethod :: "string option"
  paymentStatus :: string
  transactionId :: "string option"
  paymentDate :: "date option"
  cardLastFour :: "string option"

record cancellation =
  isCancelled :: "bool option"
  cancelledAt :: "date option"
  cancellationReason :: "string option"
  refundAmount :: "rat option"

record booking =
  oid :: objectId
  bookingId :: string
  room :: objectId
  guestInfo :: guestInfo
  checkInDate :: date
  checkOutDate :: date
  numberOfGuests :: int
  numberOfNights :: int
  pricing :: pricing
  paymentInfo :: paymentInfo
  bookingStatus :: string
  confirmationNumber :: "string option"
  booking_notes :: "string option"
  source :: string
  cancellation :: cancellation
  checkInTime :: "date option"
  checkOutTime :: "date option"

record store =
  rooms :: "room list"
  bookings :: "booking list"

record env =
  now :: date
  freshOid :: objectId
  freshBookingId :: string
  freshConfirmationNumber :: string

subsection \<open>Strict schemas: only declared paths are kept\<close>

text \<open>
  A Mongoose schema is in strict mode unless it says otherwise, and the Booking schema
  does not: when an object literal is assigned to a nested path, or passed to the model's
  constructor, each key that the schema declares is cast and stored, and a key that the
  schema does not declare is dropped; a property assigned under a name that the schema does
  not declare is not part of the document that \<^verbatim>\<open>save\<close> writes. The functions below
  read exactly the keys that \<^verbatim>\<open>models/Booking.js\<close> declares under \<^verbatim>\<open>pricing\<close>,
  \<^verbatim>\<open>paymentInfo\<close> and \<^verbatim>\<open>cancellation\<close>. The handlers only pass values of the declared
  type, so a cast of another type of value is not modelled.
\<close>

definition pricing_of :: "jsobject \<Rightarrow> pricing" where
  "pricing_of obj =
     \<lparr> pricePerNight = castNumber (js_prop obj ''pricePerNight''),
       subtotal = castNumber (js_prop obj ''subtotal''),
       taxes = castNumber (js_prop obj ''taxes''),
       fees = (case castNumber (js_prop obj ''fees'') of None \<Rightarrow> 0 | Some f \<Rightarrow> f),
       totalAmount = castNumber (js_prop obj ''totalAmount''),
       currency = (case castString (js_prop obj ''currency'') of None \<Rightarrow> ''USD'' | Some c \<Rightarrow> c) \<rparr>"

definition paymentInfo_of :: "jsobject \<Rightarrow> paymentInfo" where
  "paymentInfo_of obj =
     \<lparr> paymentMethod = castString (js_prop obj ''paymentMethod''),
       paymentStatus =
         (case castString (js_prop obj ''paymentStatus'') of None \<Rightarrow> ''pending'' | Some s \<Rightarrow> s),
       transactionId = castString (js_prop obj ''transactionId''),
       paymentDate = castDate (js_prop obj ''paymentDate''),
       cardLastFour = castString (js_prop obj ''cardLastFour'') \<rparr>"

definition cancellation_of :: "jsobject \<Rightarrow> cancellation" where
  \<comment> \<open>assignment of an object to the nested path: the sub-document is replaced, so the
      default of \<^verbatim>\<open>isCancelled\<close> is not applied again\<close>
  "cancellation_of obj =
     \<lparr> isCancelled = castBool (js_prop obj ''isCancelled''),
       cancelledAt = castDate (js_prop obj ''cancelledAt''),
       cancellationReason = castString (js_prop obj ''cancellationReason''),
       refundAmount = castNumber (js_prop obj ''refundAmount'') \<rparr>"

definition cancellation_default :: cancellation where
  \<comment> \<open>the \<^verbatim>\<open>cancellation\<close> paths of a new document: only the default of \<^verbatim>\<open>isCancelled\<close>\<close>
  "cancellation_default =
     \<lparr> isCancelled = Some False, cancelledAt = None, cancellationReason = None,
       refundAmount = None \<rparr>"

definition set_paymentInfo :: "string \<Rightarrow> jsval \<Rightarrow> paymentInfo \<Rightarrow> paymentInfo" where
  \<comment> \<open>\<^verbatim>\<open>booking.paymentInfo[key] = v\<close>: a declared path is stored, any other key is not
      part of the document\<close>
  "set_paymentInfo key v p =
     (if key = ''paymentMethod'' then p\<lparr>paymentMethod := castString v\<rparr>
      else if key = ''paymentStatus'' then
        (case castString v of None \<Rightarrow> p | Some s \<Rightarrow> p\<lparr>paymentStatus := s\<rparr>)
      else if key = ''transactionId'' then p\<lparr>transactionId := castString v\<rparr>
      else if key = ''paymentDate'' then p\<lparr>paymentDate := castDate v\<rparr>
      else if key = ''cardLastFour'' then p\<lparr>cardLastFour := castString v\<rparr>
      else p)"

subsection \<open>The store: lookup and save\<close>

definition findRoomById :: "objectId \<Rightarrow> store \<Rightarrow> room option" where
  "findRoomById i st = find (\<lambda>r. room_oid r = i) (rooms st)"

definition findById :: "objectId \<Rightarrow> store \<Rightarrow> booking option" where
  "findById i st = find (\<lambda>b. oid b = i) (bookings st)"

definition nights :: "date \<Rightarrow> date \<Rightarrow> int" where
  \<comment> \<open>\<^verbatim>\<open>Math.ceil((checkOut - checkIn) / (1000 * 60 * 60 * 24))\<close>\<close>
  "nights checkIn checkOut = \<lceil>(of_int (checkOut - checkIn) :: rat) / (1000 * 60 * 60 * 24)\<rceil>"

definition preSave :: "env \<Rightarrow> booking \<Rightarrow> booking" where
  \<comment> \<open>\<^verbatim>\<open>bookingSchema.pre('save', ...)\<close>\<close>
  "preSave e b =
     (let b1 = (if bookingId b = [] then b\<lparr>bookingId := freshBookingId e\<rparr> else b);
          b2 = (if (case confirmationNumber b1 of None \<Rightarrow> True | Some c \<Rightarrow> c = [])
                     \<and> bookingStatus b1 = ''confirmed''
                then b1\<lparr>confirmationNumber := Some (freshConfirmationNumber e)\<rparr> else b1)
      in b2\<lparr>numberOfNights := nights (checkInDate b2) (checkOutDate b2)\<rparr>)"

definition put :: "booking \<Rightarrow> booking list \<Rightarrow> booking list" where
  \<comment> \<open>a document with a stored \<open>oid\<close> is replaced where it stands, a new one is appended\<close>
  "put b bs =
     (if list_ex (\<lambda>x. oid x = oid b) bs
      then map (\<lambda>x. if oid x = oid b then b else x) bs
      else bs @ [b])"

definition save :: "env \<Rightarrow> booking \<Rightarrow> store \<Rightarrow> booking \<times> store" where
  "save e b st = (let b' = preSave e b in (b', st\<lparr>bookings := put b' (bookings st)\<rparr>))"

subsection \<open>Error responses\<close>

text \<open>
  One constructor for each error response of the handlers; \<open>http_status\<close> is the status code
  the handler sends. The messages are: Validation failed; Room not found; Room is not
  available; Check-out date must be after check-in date; Check-in date cannot be in the
  past; Room is not available for the selected dates; Room can accommodate maximum \<open>n\<close>
  guests; Invalid booking status; Invalid payment status; Booking not found; Booking is
  already cancelled; Cannot cancel completed booking.
\<close>

datatype failure =
    ValidationFailed
  | RoomNotFound
  | Unavailable
  | InvalidRange
  | CheckInInPast
  | RoomNotAvailable
  | OccupancyExceeded int
  | InvalidBookingStatus
  | InvalidPaymentStatus
  | BookingNotFound
  | AlreadyCancelled
  | CompletedBooking

fun http_status :: "failure \<Rightarrow> nat" where
  "http_status RoomNotFound = 404"
| "http_status BookingNotFound = 404"
| "http_status _ = 400"

subsection \<open>Request bodies\<close>

record addressInput =
  in_street :: "string option"
  in_city :: "string option"
  in_state :: "string option"
  in_zipCode :: "string option"
  in_country :: "string option"

text \<open>The body of \<^verbatim>\<open>POST /api/bookings\<close>. \<open>validation_errors\<close> is what
  \<^verbatim>\<open>validationResult(req)\<close> holds when the handler starts; \<open>body_method\<close> and
  \<open>body_cardNumber\<close> are \<^verbatim>\<open>paymentInfo.method\<close> and \<^verbatim>\<open>paymentInfo.cardNumber\<close>.\<close>

record bookingBody =
  validation_errors :: "string list"
  body_room :: objectId
  body_checkInDate :: date
  body_checkOutDate :: date
  body_numberOfGuests :: int
  body_firstName :: string
  body_lastName :: string
  body_email :: string
  body_phone :: string
  body_address :: "addressInput option"
  body_method :: "string option"
  body_cardNumber :: "string option"
  body_specialRequests :: "string option"

record statusBody =
  sb_status :: "string option"
  sb_notes :: "string option"

text \<open>The body of \<^verbatim>\<open>PATCH /api/bookings/:id/payment\<close>: the route validates the keys
  \<^verbatim>\<open>paymentStatus\<close>, \<^verbatim>\<open>transactionId\<close> and \<^verbatim>\<open>notes\<close>; the handler reads the keys
  \<^verbatim>\<open>status\<close>, \<^verbatim>\<open>transactionId\<close> and \<^verbatim>\<open>paymentDate\<close>.\<close>

record paymentBody =
  pb_status :: "string option"
  pb_paymentStatus :: "string option"
  pb_transactionId :: "string option"
  pb_paymentDate :: "date option"
  pb_notes :: "string option"

record cancelBody =
  cb_reason :: "string option"
  cb_refundAmount :: "rat option"

subsection \<open>createBooking\<close>

definition address_of :: "addressInput option \<Rightarrow> address" where
  \<comment> \<open>\<^verbatim>\<open>guestInfo.address?.street || ''\<close> and so on\<close>
  "address_of a =
     \<lparr> street = or_else_str (Option.bind a in_street) [],
       city = or_else_str (Option.bind a in_city) [],
       addr_state = or_else_str (Option.bind a in_state) [],
       zipCode = or_else_str (Option.bind a in_zipCode) [],
       country = or_else_str (Option.bind a in_country) [] \<rparr>"

definition slice_last4 :: "string \<Rightarrow> string" where
  \<comment> \<open>\<^verbatim>\<open>s.slice(-4)\<close>\<close>
  "slice_last4 s = drop (length s - 4) s"

definition conflictingBookings :: "objectId \<Rightarrow> date \<Rightarrow> date \<Rightarrow> store \<Rightarrow> booking list" where
  \<comment> \<open>the overlap query of \<^verbatim>\<open>createBooking\<close>; \<^verbatim>\<open>getRoomAvailability\<close> runs the same query\<close>
  "conflictingBookings r checkIn checkOut st =
     filter (\<lambda>b. room b = r
                \<and> checkInDate b < checkOut \<and> checkOutDate b > checkIn
                \<and> bookingStatus b \<in> set [''confirmed'', ''checked_in''])
       (bookings st)"

definition maxOccupancy_of :: "room \<Rightarrow> int" where
  \<comment> \<open>\<^verbatim>\<open>roomData.availability?.maxOccupancy || roomData.maxOccupancy || 2\<close>\<close>
  "maxOccupancy_of roomData =
     or_else (room_availability_maxOccupancy roomData) (or_else (room_maxOccupancy roomData) 2)"

definition pricePerNight_of :: "room \<Rightarrow> rat" where
  \<comment> \<open>\<^verbatim>\<open>roomData.pricePerNight || roomData.pricing?.basePrice || 100\<close>\<close>
  "pricePerNight_of roomData =
     or_else (room_pricePerNight roomData) (or_else (room_pricing_basePrice roomData) 100)"

definition createBooking :: "env \<Rightarrow> bookingBody \<Rightarrow> store \<Rightarrow> (failure + booking) \<times> store" where
  "createBooking e body st =
     (if validation_errors body \<noteq> [] then (Inl ValidationFailed, st)
      else case findRoomById (body_room body) st of
        None \<Rightarrow> (Inl RoomNotFound, st)
      | Some roomData \<Rightarrow>
          if \<not> room_isAvailable roomData then (Inl Unavailable, st)
          else
            let checkIn = body_checkInDate body; checkOut = body_checkOutDate body in
            if checkIn \<ge> checkOut then (Inl InvalidRange, st)
            else if checkIn < now e then (Inl CheckInInPast, st)
            else if conflictingBookings (body_room body) checkIn checkOut st \<noteq> []
              then (Inl RoomNotAvailable, st)
            else
              let maxOccupancy = maxOccupancy_of roomData in
              if body_numberOfGuests body > maxOccupancy
                then (Inl (OccupancyExceeded maxOccupancy), st)
              else
                let numberOfNights = nights checkIn checkOut;
                    pricePerNight = pricePerNight_of roomData;
                    subtotal = pricePerNight * of_int numberOfNights;
                    taxRate = 12 / 100;
                    serviceFee = 25;
                    taxes = subtotal * taxRate;
                    totalAmount = subtotal + taxes + serviceFee;
                    bookingData =
                      \<lparr> oid = freshOid e,
                        bookingId = freshBookingId e,
                        room = body_room body,
                        guestInfo =
                          \<lparr> firstName = body_firstName body,
                            lastName = body_lastName body,
                            email = body_email body,
                            phone = body_phone body,
                            address = address_of (body_address body),
                            specialRequests = or_else_str (body_specialRequests body) [] \<rparr>,
                        checkInDate = checkIn,
                        checkOutDate = checkOut,
                        numberOfGuests = body_numberOfGuests body,
                        numberOfNights = numberOfNights,
                        pricing = pricing_of
                          [(''pricePerNight'', JNum pricePerNight),
                           (''subtotal'', JNum subtotal),
                           (''taxes'', JNum taxes),
                           (''serviceFee'', JNum serviceFee),
                           (''totalAmount'', JNum totalAmount),
                           (''currency'', JStr ''USD'')],
                        paymentInfo = paymentInfo_of
                          [(''method'', JStr (or_else_str (body_method body) ''credit_card'')),
                           (''status'', JStr ''pending''),
                           (''cardLastFour'',
                              JStr (case body_cardNumber body of
                                      None \<Rightarrow> []
                                    | Some c \<Rightarrow> if c = [] then [] else slice_last4 c))],
                        bookingStatus = ''pending'',
                        confirmationNumber = None,
                        booking_notes = None,
                        source = ''website'',
                        cancellation = cancellation_default,
                        checkInTime = None,
                        checkOutTime = None \<rparr>;
                    (booking, st') = save e bookingData st
                in (Inr booking, st'))"

subsection \<open>updateBookingStatus\<close>

definition validStatuses :: "string list" where
  "validStatuses =
     [''pending'', ''confirmed'', ''checked_in'', ''checked_out'', ''cancelled'', ''no_show'']"

definition updateBookingStatus ::
  "env \<Rightarrow> objectId \<Rightarrow> statusBody \<Rightarrow> store \<Rightarrow> (failure + booking) \<times> store" where
  "updateBookingStatus e i body st =
     (case sb_status body of
        None \<Rightarrow> (Inl InvalidBookingStatus, st)
      | Some status \<Rightarrow>
          if \<not> (status \<in> set validStatuses) then (Inl InvalidBookingStatus, st)
          else (case findById i st of
            None \<Rightarrow> (Inl BookingNotFound, st)
          | Some booking \<Rightarrow>
              let b1 = booking\<lparr>bookingStatus := status\<rparr>;
                  b2 = (case sb_notes body of
                          None \<Rightarrow> b1
                        | Some n \<Rightarrow> if n = [] then b1 else b1\<lparr>booking_notes := Some n\<rparr>);
                  b3 = (if status = ''checked_in'' \<and> checkInTime b2 = None
                        then b2\<lparr>checkInTime := Some (now e)\<rparr> else b2);
                  b4 = (if status = ''checked_out'' \<and> checkOutTime b3 = None
                        then b3\<lparr>checkOutTime := Some (now e)\<rparr> else b3);
                  (saved, st') = save e b4 st
              in (Inr saved, st')))"

subsection \<open>updatePaymentStatus and its route\<close>

definition validPaymentStatuses :: "string list" where
  \<comment> \<open>the list of the handler\<close>
  "validPaymentStatuses = [''pending'', ''processing'', ''completed'', ''failed'', ''refunded'']"

definition updatePaymentStatus ::
  "env \<Rightarrow> objectId \<Rightarrow> paymentBody \<Rightarrow> store \<Rightarrow> (failure + booking) \<times> store" where
  "updatePaymentStatus e i body st =
     (case pb_status body of
        None \<Rightarrow> (Inl InvalidPaymentStatus, st)
      | Some status \<Rightarrow>
          if \<not> (status \<in> set validPaymentStatuses) then (Inl InvalidPaymentStatus, st)
          else (case findById i st of
            None \<Rightarrow> (Inl BookingNotFound, st)
          | Some booking \<Rightarrow>
              let b1 = booking\<lparr>paymentInfo :=
                         set_paymentInfo ''status'' (JStr status) (paymentInfo booking)\<rparr>;
                  b2 = (case pb_transactionId body of
                          None \<Rightarrow> b1
                        | Some t \<Rightarrow> if t = [] then b1 else
                            b1\<lparr>paymentInfo :=
                                 set_paymentInfo ''transactionId'' (JStr t) (paymentInfo b1)\<rparr>);
                  b3 = (case pb_paymentDate body of
                          Some d \<Rightarrow>
                            b2\<lparr>paymentInfo :=
                                 set_paymentInfo ''paymentDate'' (JDate d) (paymentInfo b2)\<rparr>
                        | None \<Rightarrow>
                            if status = ''completed''
                            then b2\<lparr>paymentInfo :=
                                 set_paymentInfo ''paymentDate'' (JDate (now e)) (paymentInfo b2)\<rparr>
                            else b2);
                  b4 = (if status = ''completed'' \<and> bookingStatus b3 = ''pending''
                        then b3\<lparr>bookingStatus := ''confirmed''\<rparr> else b3);
                  (saved, st') = save e b4 st
              in (Inr saved, st')))"

text \<open>
  The route \<^verbatim>\<open>PATCH /:id/payment\<close> runs its validation chain before the handler:
  \<^verbatim>\<open>paymentStatus\<close> must be one of four values, \<^verbatim>\<open>transactionId\<close> and \<^verbatim>\<open>notes\<close> are
  optional, trimmed and bounded in length. (The authentication and permission
  middleware and the check of the id's format stand before it and are taken as passed.)
\<close>

definition is_space :: "char \<Rightarrow> bool" where
  "is_space c = (c \<in> set [CHR '' '', CHR 0x09, CHR 0x0A, CHR 0x0B, CHR 0x0C, CHR 0x0D])"

definition trim :: "string \<Rightarrow> string" where
  "trim s = rev (dropWhile is_space (rev (dropWhile is_space s)))"

definition routePaymentErrors :: "paymentBody \<Rightarrow> string list" where
  "routePaymentErrors body =
     (case pb_paymentStatus body of
        None \<Rightarrow> [''Invalid payment status'']
      | Some s \<Rightarrow> if s \<in> set [''pending'', ''completed'', ''failed'', ''refunded''] then []
                  else [''Invalid payment status''])
     @ (case pb_transactionId body of
          None \<Rightarrow> []
        | Some t \<Rightarrow> if 5 \<le> length (trim t) \<and> length (trim t) \<le> 100 then []
                    else [''Transaction ID must be between 5 and 100 characters''])
     @ (case pb_notes body of
          None \<Rightarrow> []
        | Some n \<Rightarrow> if length (trim n) \<le> 500 then []
                    else [''Notes cannot exceed 500 characters''])"

definition patchPaymentRoute ::
  "env \<Rightarrow> objectId \<Rightarrow> paymentBody \<Rightarrow> store \<Rightarrow> (failure + booking) \<times> store" where
  "patchPaymentRoute e i body st =
     (if routePaymentErrors body \<noteq> [] then (Inl ValidationFailed, st)
      else updatePaymentStatus e i
             (body\<lparr>pb_transactionId := map_option trim (pb_transactionId body),
                    pb_notes := map_option trim (pb_notes body)\<rparr>) st)"

subsection \<open>cancelBooking\<close>

definition cancelBooking ::
  "env \<Rightarrow> objectId \<Rightarrow> cancelBody \<Rightarrow> store \<Rightarrow> (failure + booking) \<times> store" where
  "cancelBooking e i body st =
     (case findById i st of
        None \<Rightarrow> (Inl BookingNotFound, st)
      | Some booking \<Rightarrow>
          if bookingStatus booking = ''cancelled'' then (Inl AlreadyCancelled, st)
          else if bookingStatus booking = ''checked_out'' then (Inl CompletedBooking, st)
          else
            let b1 = booking\<lparr>bookingStatus := ''cancelled''\<rparr>;
                b2 = b1\<lparr>cancellation := cancellation_of
                        [(''cancelledAt'', JDate (now e)),
                         (''reason'', JStr (or_else_str (cb_reason body) ''Cancelled by guest'')),
                         (''refundAmount'', JNum (or_else (cb_refundAmount body) 0)),
                         (''refundStatus'',
                            JStr (case cb_refundAmount body of
                                    None \<Rightarrow> ''not_applicable''
                                  | Some r \<Rightarrow> if r > 0 then ''pending'' else ''not_applicable''))]\<rparr>;
                (saved, st') = save e b2 st
            in (Inr saved, st'))"

subsection \<open>Availability queries\<close>

definition getRoomAvailability :: "objectId \<Rightarrow> date \<Rightarrow> date \<Rightarrow> store \<Rightarrow> failure + bool" where
  \<comment> \<open>the \<^verbatim>\<open>isAvailable\<close> field of the response of \<^verbatim>\<open>GET /api/rooms/:id/availability\<close>,
      for a query that names both dates\<close>
  "getRoomAvailability i checkInDate' checkOutDate' st =
     (if checkInDate' \<ge> checkOutDate' then Inl InvalidRange
      else case findRoomById i st of
        None \<Rightarrow> Inl RoomNotFound
      | Some r \<Rightarrow>
          Inr (conflictingBookings i checkInDate' checkOutDate' st = [] \<and> room_isAvailable r))"

definition checkRoomAvailability ::
  "objectId \<Rightarrow> date \<Rightarrow> date \<Rightarrow> objectId option \<Rightarrow> store \<Rightarrow> bool" where
  \<comment> \<open>\<^verbatim>\<open>utils/apiHelpers.js\<close>; the status list is the one written there\<close>
  "checkRoomAvailability roomId checkInDate' checkOutDate' excludeBookingId st =
     (filter (\<lambda>b. room b = roomId
                 \<and> bookingStatus b \<in> set [''confirmed'', ''checked-in'']
                 \<and> checkInDate b < checkOutDate' \<and> checkOutDate b > checkInDate'
                 \<and> (case excludeBookingId of None \<Rightarrow> True | Some x \<Rightarrow> oid b \<noteq> x))
        (bookings st) = [])"

subsection \<open>Notions of the specification\<close>

text \<open>
  The definitions of this subsection follow the words of the specification, not the code:
  they are what the handlers are compared with.

  Two half-open intervals \<open>[a, b)\<close> and \<open>[c, d)\<close> intersect when some instant lies in
  both, that is when \<open>[max a c, min b d)\<close> is not empty.
\<close>

definition intervals_intersect :: "date \<Rightarrow> date \<Rightarrow> date \<Rightarrow> date \<Rightarrow> bool" where
  "intervals_intersect a b c d = (max a c < min b d)"

definition no_double_booking :: "store \<Rightarrow> bool" where
  \<comment> \<open>any two non-cancelled bookings of one room have disjoint intervals\<close>
  "no_double_booking st =
     (\<forall>x \<in> set (bookings st). \<forall>y \<in> set (bookings st).
        oid x \<noteq> oid y \<and> room x = room y
          \<and> bookingStatus x \<noteq> ''cancelled'' \<and> bookingStatus y \<noteq> ''cancelled''
        \<longrightarrow> \<not> intervals_intersect (checkInDate x) (checkOutDate x)
                                   (checkInDate y) (checkOutDate y))"

definition no_confirmed_double_booking :: "store \<Rightarrow> bool" where
  \<comment> \<open>the same, for the bookings that the overlap query looks at\<close>
  "no_confirmed_double_booking st =
     (\<forall>x \<in> set (bookings st). \<forall>y \<in> set (bookings st).
        oid x \<noteq> oid y \<and> room x = room y
          \<and> bookingStatus x \<in> set [''confirmed'', ''checked_in'']
          \<and> bookingStatus y \<in> set [''confirmed'', ''checked_in'']
        \<longrightarrow> \<not> intervals_intersect (checkInDate x) (checkOutDate x)
                                   (checkInDate y) (checkOutDate y))"

text \<open>The states of the booking store that a sequence of requests produces, starting
  without bookings. A new document gets an object id that no stored document has.\<close>

inductive reachable :: "store \<Rightarrow> bool" where
  initial: "reachable \<lparr> rooms = rs, bookings = [] \<rparr>"
| create: "reachable st \<Longrightarrow> freshOid e \<notin> oid ` set (bookings st)
             \<Longrightarrow> reachable (snd (createBooking e body st))"
| status: "reachable st \<Longrightarrow> reachable (snd (updateBookingStatus e i sbody st))"
| payment: "reachable st \<Longrightarrow> reachable (snd (updatePaymentStatus e i pbody st))"
| cancel: "reachable st \<Longrightarrow> reachable (snd (cancelBooking e i cbody st))"

definition dates_ordered :: "booking \<Rightarrow> bool" where
  \<comment> \<open>check-out strictly after check-in\<close>
  "dates_ordered b = (checkInDate b < checkOutDate b)"

definition round2 :: "rat \<Rightarrow> rat" where
  \<comment> \<open>standard rounding to two decimal places, \<^verbatim>\<open>Math.round(x * 100) / 100\<close>\<close>
  "round2 x = of_int \<lfloor>x * 100 + 1 / 2\<rfloor> / 100"

subsection \<open>Concrete scenarios\<close>

text \<open>Dates of the scenarios: \<open>aug_2025 d\<close> is midnight (UTC) of day \<open>d\<close> of August 2025
  and \<open>jul_1_2025\<close> is midnight of 1 July 2025, in milliseconds since the epoch.\<close>

definition aug_2025 :: "int \<Rightarrow> date" where
  "aug_2025 d = 1753920000000 + d * 86400000"

definition jul_1_2025 :: date where
  "jul_1_2025 = 1751328000000"

definition env0 :: env where
  "env0 = \<lparr> now = jul_1_2025, freshOid = 100, freshBookingId = ''BK1751328000000ABCDEFGHI'',
            freshConfirmationNumber = ''CONF1751328000000ABCDEF'' \<rparr>"

definition env1 :: env where
  "env1 = env0\<lparr>freshOid := 101, freshBookingId := ''BK1751328000001JKLMNOPQR''\<rparr>"

definition roomA :: room where
  \<comment> \<open>nightly rate 100, at most two guests\<close>
  "roomA = \<lparr> room_oid = 11, room_isAvailable = True, room_pricePerNight = Some 100,
             room_pricing_basePrice = None, room_maxOccupancy = Some 2,
             room_availability_maxOccupancy = None \<rparr>"

definition roomB :: room where
  \<comment> \<open>nightly rate 99.99\<close>
  "roomB = roomA\<lparr>room_oid := 12, room_pricePerNight := Some (9999 / 100)\<rparr>"

definition roomC :: room where
  \<comment> \<open>a room whose availability flag is off\<close>
  "roomC = roomA\<lparr>room_oid := 13, room_isAvailable := False\<rparr>"

definition guest0 :: guestInfo where
  "guest0 = \<lparr> firstName = ''John'', lastName = ''Doe'', email = ''john.doe@example.com'',
              phone = ''+12345678901'', address = address_of None, specialRequests = [] \<rparr>"

definition stay :: "objectId \<Rightarrow> objectId \<Rightarrow> date \<Rightarrow> date \<Rightarrow> string \<Rightarrow> booking" where
  \<comment> \<open>a stored booking of \<open>roomA\<close>'s price with the given id, room, dates and status\<close>
  "stay i r checkIn checkOut status =
     \<lparr> oid = i, bookingId = ''BK1750000000000ZZZZZZZZZ'', room = r, guestInfo = guest0,
       checkInDate = checkIn, checkOutDate = checkOut, numberOfGuests = 2,
       numberOfNights = nights checkIn checkOut,
       pricing = pricing_of [(''pricePerNight'', JNum 100), (''subtotal'', JNum 200),
                             (''taxes'', JNum 24), (''totalAmount'', JNum 249)],
       paymentInfo = paymentInfo_of [],
       bookingStatus = status, confirmationNumber = None, booking_notes = None,
       source = ''website'', cancellation = cancellation_default,
       checkInTime = None, checkOutTime = None \<rparr>"

definition request :: "objectId \<Rightarrow> date \<Rightarrow> date \<Rightarrow> int \<Rightarrow> bookingBody" where
  \<comment> \<open>a valid request body for the given room, dates and number of guests\<close>
  "request r checkIn checkOut guests =
     \<lparr> validation_errors = [], body_room = r, body_checkInDate = checkIn,
       body_checkOutDate = checkOut, body_numberOfGuests = guests,
       body_firstName = ''John'', body_lastName = ''Doe'',
       body_email = ''john.doe@example.com'', body_phone = ''+12345678901'',
       body_address = None, body_method = Some ''credit_card'', body_cardNumber = None,
       body_specialRequests = None \<rparr>"

definition store_with :: "booking list \<Rightarrow> store" where
  "store_with bs = \<lparr> rooms = [roomA, roomB, roomC], bookings = bs \<rparr>"

definition st1 :: store where
  \<comment> \<open>after one request for room 11, 1 to 3 August\<close>
  "st1 = snd (createBooking env0 (request 11 (aug_2025 1) (aug_2025 3) 2) (store_with []))"

definition st2 :: store where
  \<comment> \<open>after a second request for the same room and the same dates\<close>
  "st2 = snd (createBooking env1 (request 11 (aug_2025 1) (aug_2025 3) 2) st1)"

definition st2_confirmed :: store where
  \<comment> \<open>both bookings of \<open>st2\<close>, confirmed one after the other\<close>
  "st2_confirmed =
     snd (updateBookingStatus env0 101 \<lparr>sb_status = Some ''confirmed'', sb_notes = None\<rparr>
       (snd (updateBookingStatus env0 100 \<lparr>sb_status = Some ''confirmed'', sb_notes = None\<rparr>
          st2)))"

definition st1_confirmed :: store where
  \<comment> \<open>the booking of \<open>st1\<close>, confirmed by the administrator\<close>
  "st1_confirmed =
     snd (updateBookingStatus env0 100 \<lparr>sb_status = Some ''confirmed'', sb_notes = None\<rparr> st1)"

definition two_stays :: store where
  "two_stays = store_with [stay 7 11 (aug_2025 1) (aug_2025 3) ''pending'',
                           stay 8 11 (aug_2025 5) (aug_2025 6) ''confirmed'']"

definition paid :: paymentBody where
  \<comment> \<open>a body that carries both the key the route validates and the key the handler reads\<close>
  "paid = \<lparr> pb_status = Some ''completed'', pb_paymentStatus = Some ''completed'',
            pb_transactionId = Some ''TXN-12345'', pb_paymentDate = None, pb_notes = None \<rparr>"

section \<open>Properties\<close>

lemmas scenario_defs = request_def store_with_def roomA_def roomB_def roomC_def env0_def
  env1_def jul_1_2025_def aug_2025_def stay_def guest0_def

lemmas create_defs = createBooking_def findRoomById_def conflictingBookings_def
  maxOccupancy_of_def pricePerNight_of_def or_else_def or_else_str_def nights_def save_def
  preSave_def put_def pricing_of_def paymentInfo_of_def cancellation_default_def js_prop_def
  address_of_def Let_def

subsection \<open>Saving a document\<close>

lemma preSave_oid [simp]: "oid (preSave e b) = oid b"
  by (simp add: preSave_def Let_def)

lemma preSave_bookingStatus [simp]: "bookingStatus (preSave e b) = bookingStatus b"
  by (simp add: preSave_def Let_def)

lemma preSave_fields [simp]:
  "room (preSave e b) = room b" "checkInDate (preSave e b) = checkInDate b"
  "checkOutDate (preSave e b) = checkOutDate b" "pricing (preSave e b) = pricing b"
  "paymentInfo (preSave e b) = paymentInfo b" "cancellation (preSave e b) = cancellation b"
  "numberOfNights (preSave e b) = nights (checkInDate b) (checkOutDate b)"
  by (simp_all add: preSave_def Let_def)

lemma put_mem: "b \<in> set (put b bs)"
  by (auto simp: put_def list_ex_iff)

lemma put_all: "list_all P bs \<Longrightarrow> P b \<Longrightarrow> list_all P (put b bs)"
  by (auto simp: put_def list_all_iff)

lemma save_snd_mem: "preSave e b \<in> set (bookings (snd (save e b st)))"
  by (simp add: save_def Let_def put_mem)

lemma findById_all: "list_all P (bookings st) \<Longrightarrow> findById i st = Some b \<Longrightarrow> P b"
  by (auto simp: findById_def find_Some_iff list_all_iff)

lemma find_put:
  "find (\<lambda>x. oid x = i) bs = Some b \<Longrightarrow> oid b' = i \<Longrightarrow>
     find (\<lambda>x. oid x = i) (put b' bs) = Some b'"
proof (induction bs)
  case Nil
  then show ?case by simp
next
  case (Cons a bs)
  then show ?case
    by (auto simp: put_def split: if_splits)
qed

lemma findById_oid: "findById i st = Some b \<Longrightarrow> oid b = i"
  by (auto simp: findById_def find_Some_iff)

lemma save_fst [simp]: "fst (save e b st) = preSave e b"
  by (simp add: save_def Let_def)

lemma save_findById:
  "oid b = i \<Longrightarrow> findById i st \<noteq> None \<Longrightarrow>
     findById i (snd (save e b st)) = Some (preSave e b)"
  unfolding save_def findById_def Let_def
  using find_put [of i "bookings st" _ "preSave e b"] by auto

subsection \<open>Cancelling a booking that is cancelled or checked out\<close>

text \<open>
  C7. When the booking's status is \<open>cancelled\<close>, \<open>cancelBooking\<close> answers with the
  already-cancelled error, and when it is \<open>checked_out\<close> with the completed-booking error;
  in both cases the store after the request is the store before it, so no field of the
  booking (or of any other document) has changed.
\<close>

theorem cancelBooking_rejects_terminal:
  assumes "findById i st = Some b"
  shows "(bookingStatus b = ''cancelled'' \<longrightarrow>
            cancelBooking e i body st = (Inl AlreadyCancelled, st))
       \<and> (bookingStatus b = ''checked_out'' \<longrightarrow>
            cancelBooking e i body st = (Inl CompletedBooking, st))"
  using assms by (simp add: cancelBooking_def)

theorem cancelBooking_rejects_terminal_witness:
  "cancelBooking env0 7 \<lparr>cb_reason = Some ''Change of plans'', cb_refundAmount = Some 50\<rparr>
      (store_with [stay 7 11 (aug_2025 1) (aug_2025 3) ''cancelled'',
                   stay 8 11 (aug_2025 5) (aug_2025 6) ''checked_out''])
    = (Inl AlreadyCancelled,
       store_with [stay 7 11 (aug_2025 1) (aug_2025 3) ''cancelled'',
                   stay 8 11 (aug_2025 5) (aug_2025 6) ''checked_out''])
  \<and> cancelBooking env0 8 \<lparr>cb_reason = Some ''Change of plans'', cb_refundAmount = Some 50\<rparr>
      (store_with [stay 7 11 (aug_2025 1) (aug_2025 3) ''cancelled'',
                   stay 8 11 (aug_2025 5) (aug_2025 6) ''checked_out''])
    = (Inl CompletedBooking,
       store_with [stay 7 11 (aug_2025 1) (aug_2025 3) ''cancelled'',
                   stay 8 11 (aug_2025 5) (aug_2025 6) ''checked_out''])"
proof -
  let ?st = "store_with [stay 7 11 (aug_2025 1) (aug_2025 3) ''cancelled'',
                         stay 8 11 (aug_2025 5) (aug_2025 6) ''checked_out'']"
  have f7: "findById 7 ?st = Some (stay 7 11 (aug_2025 1) (aug_2025 3) ''cancelled'')"
    by (simp add: findById_def store_with_def stay_def)
  have f8: "findById 8 ?st = Some (stay 8 11 (aug_2025 5) (aug_2025 6) ''checked_out'')"
    by (simp add: findById_def store_with_def stay_def)
  have s7: "bookingStatus (stay 7 11 (aug_2025 1) (aug_2025 3) ''cancelled'') = ''cancelled''"
    by (simp add: stay_def)
  have s8: "bookingStatus (stay 8 11 (aug_2025 5) (aug_2025 6) ''checked_out'') = ''checked_out''"
    by (simp add: stay_def)
  show ?thesis
    using cancelBooking_rejects_terminal [OF f7] cancelBooking_rejects_terminal [OF f8] s7 s8
    by blast
qed

subsection \<open>Status updates are not restricted by the current status\<close>

text \<open>
  C10. For an existing booking, whatever its current status, and for each of the six
  statuses of \<open>validStatuses\<close>, \<open>updateBookingStatus\<close> succeeds, and the stored booking
  then has the requested status: no transition is refused, so a booking in a terminal
  status can be moved back to \<open>pending\<close>.
\<close>

theorem updateBookingStatus_accepts_every_status:
  assumes "findById i st = Some b" and "new \<in> set validStatuses"
  shows "\<exists>b'. updateBookingStatus e i \<lparr>sb_status = Some new, sb_notes = n\<rparr> st
                 = (Inr b', snd (updateBookingStatus e i \<lparr>sb_status = Some new, sb_notes = n\<rparr> st))
           \<and> bookingStatus b' = new
           \<and> findById i (snd (updateBookingStatus e i \<lparr>sb_status = Some new, sb_notes = n\<rparr> st))
               = Some b'"
proof -
  have i: "i = oid b" using findById_oid [OF assms(1)] by simp
  show ?thesis
    using assms unfolding i
    by (simp add: updateBookingStatus_def Let_def case_prod_beta save_findById
        split: option.splits)
qed

theorem updateBookingStatus_accepts_every_status_witness:
  "set validStatuses
     = {''pending'', ''confirmed'', ''checked_in'', ''checked_out'', ''cancelled'', ''no_show''}
   \<and> (\<exists>b'. updateBookingStatus env0 7 \<lparr>sb_status = Some ''pending'', sb_notes = None\<rparr>
              (store_with [stay 7 11 (aug_2025 1) (aug_2025 3) ''cancelled''])
            = (Inr b', snd (updateBookingStatus env0 7
                              \<lparr>sb_status = Some ''pending'', sb_notes = None\<rparr>
                              (store_with [stay 7 11 (aug_2025 1) (aug_2025 3) ''cancelled''])))
          \<and> bookingStatus b' = ''pending''
          \<and> findById 7 (snd (updateBookingStatus env0 7
                              \<lparr>sb_status = Some ''pending'', sb_notes = None\<rparr>
                              (store_with [stay 7 11 (aug_2025 1) (aug_2025 3) ''cancelled''])))
              = Some b')"
proof -
  have f: "findById 7 (store_with [stay 7 11 (aug_2025 1) (aug_2025 3) ''cancelled''])
             = Some (stay 7 11 (aug_2025 1) (aug_2025 3) ''cancelled'')"
    by (simp add: findById_def store_with_def stay_def)
  have v: "set validStatuses
     = {''pending'', ''confirmed'', ''checked_in'', ''checked_out'', ''cancelled'', ''no_show''}"
    by (simp add: validStatuses_def)
  have m: "''pending'' \<in> set validStatuses"
    by (simp add: validStatuses_def)
  show ?thesis
    using updateBookingStatus_accepts_every_status [OF f m, of env0 None] v by blast
qed

subsection \<open>A completed payment confirms a pending booking\<close>

text \<open>
  C6. For an existing booking, \<open>updatePaymentStatus\<close> with the requested status
  \<open>completed\<close> succeeds; if the booking's status was \<open>pending\<close> it becomes
  \<open>confirmed\<close>, and otherwise (in particular when it was already \<open>confirmed\<close>) the
  booking's status is left as it was.
\<close>

theorem updatePaymentStatus_completed_promotes_pending:
  assumes "findById i st = Some b" and "pb_status body = Some ''completed''"
  shows "\<exists>b'. updatePaymentStatus e i body st = (Inr b', snd (updatePaymentStatus e i body st))
           \<and> findById i (snd (updatePaymentStatus e i body st)) = Some b'
           \<and> bookingStatus b'
               = (if bookingStatus b = ''pending'' then ''confirmed'' else bookingStatus b)"
proof -
  have i: "i = oid b" using findById_oid [OF assms(1)] by simp
  show ?thesis
    using assms unfolding i
    by (simp add: updatePaymentStatus_def validPaymentStatuses_def Let_def case_prod_beta
        save_findById split: option.splits)
qed

theorem updatePaymentStatus_completed_promotes_pending_witness:
  "(\<exists>b'. updatePaymentStatus env0 7 paid two_stays
            = (Inr b', snd (updatePaymentStatus env0 7 paid two_stays))
         \<and> findById 7 (snd (updatePaymentStatus env0 7 paid two_stays)) = Some b'
         \<and> bookingStatus b' = ''confirmed'')
   \<and> (\<exists>b'. updatePaymentStatus env0 8 paid two_stays
            = (Inr b', snd (updatePaymentStatus env0 8 paid two_stays))
         \<and> findById 8 (snd (updatePaymentStatus env0 8 paid two_stays)) = Some b'
         \<and> bookingStatus b' = ''confirmed'')"
proof -
  have f7: "findById 7 two_stays = Some (stay 7 11 (aug_2025 1) (aug_2025 3) ''pending'')"
    by (simp add: findById_def two_stays_def store_with_def stay_def)
  have f8: "findById 8 two_stays = Some (stay 8 11 (aug_2025 5) (aug_2025 6) ''confirmed'')"
    by (simp add: findById_def two_stays_def store_with_def stay_def)
  have p: "pb_status paid = Some ''completed''"
    by (simp add: paid_def)
  have s7: "bookingStatus (stay 7 11 (aug_2025 1) (aug_2025 3) ''pending'') = ''pending''"
    by (simp add: stay_def)
  have s8: "bookingStatus (stay 8 11 (aug_2025 5) (aug_2025 6) ''confirmed'') = ''confirmed''"
    by (simp add: stay_def)
  show ?thesis
    using updatePaymentStatus_completed_promotes_pending [OF f7 p, of env0]
      updatePaymentStatus_completed_promotes_pending [OF f8 p, of env0]
    unfolding s7 s8 by simp
qed

subsection \<open>What createBooking checks and returns\<close>

lemma conflictingBookings_nonempty:
  "conflictingBookings r ci co st \<noteq> [] \<longleftrightarrow>
     (\<exists>b \<in> set (bookings st). room b = r \<and> checkInDate b < co \<and> checkOutDate b > ci
        \<and> (bookingStatus b = ''confirmed'' \<or> bookingStatus b = ''checked_in''))"
  by (auto simp: conflictingBookings_def filter_empty_conv)

lemma createBooking_checked:
  assumes "validation_errors body = []"
    and "findRoomById (body_room body) st = Some r" and "room_isAvailable r"
    and "body_checkInDate body < body_checkOutDate body"
    and "now e \<le> body_checkInDate body"
  shows "fst (createBooking e body st) = Inl RoomNotAvailable \<longleftrightarrow>
           conflictingBookings (body_room body) (body_checkInDate body)
             (body_checkOutDate body) st \<noteq> []"
  using assms
  by (simp add: createBooking_def Let_def case_prod_beta)

lemma createBooking_success:
  assumes "createBooking e body st = (Inr b, st')"
  obtains r where "findRoomById (body_room body) st = Some r"
    and "conflictingBookings (body_room body) (body_checkInDate body)
           (body_checkOutDate body) st = []"
    and "room b = body_room body" and "checkInDate b = body_checkInDate body"
    and "checkOutDate b = body_checkOutDate body" and "bookingStatus b = ''pending''"
    and "numberOfNights b = nights (body_checkInDate body) (body_checkOutDate body)"
    and "pricing b = pricing_of
           [(''pricePerNight'', JNum (pricePerNight_of r)),
            (''subtotal'', JNum (pricePerNight_of r
                * of_int (nights (body_checkInDate body) (body_checkOutDate body)))),
            (''taxes'', JNum (pricePerNight_of r
                * of_int (nights (body_checkInDate body) (body_checkOutDate body)) * (12 / 100))),
            (''serviceFee'', JNum 25),
            (''totalAmount'', JNum (pricePerNight_of r
                * of_int (nights (body_checkInDate body) (body_checkOutDate body))
                + pricePerNight_of r
                  * of_int (nights (body_checkInDate body) (body_checkOutDate body)) * (12 / 100)
                + 25)),
            (''currency'', JStr ''USD'')]"
    and "b \<in> set (bookings st')"
  using assms
  unfolding createBooking_def Let_def case_prod_beta
  by (auto split: if_splits option.splits simp: save_snd_mem)

subsection \<open>Stored dates are ordered\<close>

lemma save_all:
  "list_all dates_ordered (bookings st) \<Longrightarrow> dates_ordered b \<Longrightarrow>
     list_all dates_ordered (bookings (snd (save e b st)))"
  by (simp add: save_def Let_def put_all dates_ordered_def)

lemma createBooking_dates:
  "list_all dates_ordered (bookings st) \<Longrightarrow>
     list_all dates_ordered (bookings (snd (createBooking e body st)))"
  unfolding createBooking_def Let_def case_prod_beta
  by (auto split: option.splits intro!: save_all simp: dates_ordered_def)

lemma updateBookingStatus_dates:
  "list_all dates_ordered (bookings st) \<Longrightarrow>
     list_all dates_ordered (bookings (snd (updateBookingStatus e i body st)))"
  unfolding updateBookingStatus_def Let_def case_prod_beta
  by (auto split: option.splits intro!: save_all dest: findById_all simp: dates_ordered_def)

lemma updatePaymentStatus_dates:
  "list_all dates_ordered (bookings st) \<Longrightarrow>
     list_all dates_ordered (bookings (snd (updatePaymentStatus e i body st)))"
  unfolding updatePaymentStatus_def Let_def case_prod_beta
  by (auto split: option.splits intro!: save_all dest: findById_all simp: dates_ordered_def)

lemma cancelBooking_dates:
  "list_all dates_ordered (bookings st) \<Longrightarrow>
     list_all dates_ordered (bookings (snd (cancelBooking e i body st)))"
  unfolding cancelBooking_def Let_def case_prod_beta
  by (auto split: option.splits intro!: save_all dest: findById_all simp: dates_ordered_def)

lemma reachable_dates_ordered:
  "reachable st \<Longrightarrow> list_all dates_ordered (bookings st)"
  by (induction rule: reachable.induct)
     (simp_all add: createBooking_dates updateBookingStatus_dates updatePaymentStatus_dates
        cancelBooking_dates)

lemma intervals_intersect_sets:
  "intervals_intersect a b c d \<longleftrightarrow> {a..<b} \<inter> {c..<d} \<noteq> {}"
  by (auto simp: intervals_intersect_def)

subsection \<open>Facts about the scenarios\<close>

lemma st1_summary:
  "rooms st1 = [roomA, roomB, roomC]"
  "map (\<lambda>b. (oid b, room b, checkInDate b, checkOutDate b, bookingStatus b)) (bookings st1)
     = [(100, 11, aug_2025 1, aug_2025 3, ''pending'')]"
  by (simp_all add: st1_def create_defs scenario_defs)

lemma st2_summary:
  "map (\<lambda>b. (oid b, room b, checkInDate b, checkOutDate b, bookingStatus b)) (bookings st2)
     = [(100, 11, aug_2025 1, aug_2025 3, ''pending''),
        (101, 11, aug_2025 1, aug_2025 3, ''pending'')]"
  by (simp add: st2_def st1_def create_defs scenario_defs)

lemma st1_confirmed_summary:
  "rooms st1_confirmed = [roomA, roomB, roomC]"
  "map (\<lambda>b. (oid b, room b, checkInDate b, checkOutDate b, bookingStatus b))
      (bookings st1_confirmed)
     = [(100, 11, aug_2025 1, aug_2025 3, ''confirmed'')]"
  by (simp_all add: st1_confirmed_def st1_def updateBookingStatus_def validStatuses_def
      findById_def create_defs scenario_defs)

lemma reachable_st1: "reachable st1"
proof -
  have r0: "reachable (store_with [])"
    unfolding store_with_def by (rule reachable.initial)
  have "freshOid env0 \<notin> oid ` set (bookings (store_with []))"
    by (simp add: store_with_def)
  from reachable.create [OF r0 this] show ?thesis
    by (simp add: st1_def)
qed

lemma reachable_st1_confirmed: "reachable st1_confirmed"
  unfolding st1_confirmed_def by (rule reachable.status [OF reachable_st1])

lemma reachable_st2: "reachable st2"
proof -
  have "freshOid env1 \<notin> oid ` set (bookings st1)"
    using st1_summary(2) by (auto simp: env1_def env0_def)
  from reachable.create [OF reachable_st1 this] show ?thesis
    by (simp add: st2_def)
qed

lemma st2_confirmed_summary:
  "map (\<lambda>b. (oid b, room b, checkInDate b, checkOutDate b, bookingStatus b))
      (bookings st2_confirmed)
     = [(100, 11, aug_2025 1, aug_2025 3, ''confirmed''),
        (101, 11, aug_2025 1, aug_2025 3, ''confirmed'')]"
  by (simp add: st2_confirmed_def st2_def st1_def updateBookingStatus_def validStatuses_def
      findById_def create_defs scenario_defs)

lemma st1_confirmed_conflicts:
  "conflictingBookings 11 (aug_2025 2) (aug_2025 4) st1_confirmed \<noteq> []"
  "conflictingBookings 11 (aug_2025 3) (aug_2025 5) st1_confirmed = []"
proof -
  obtain x where xy: "bookings st1_confirmed = [x]"
    and x: "room x = 11" "checkInDate x = aug_2025 1" "checkOutDate x = aug_2025 3" 
      "bookingStatus x = ''confirmed''"
    using st1_confirmed_summary(2) by (auto simp: map_eq_Cons_conv)
  show "conflictingBookings 11 (aug_2025 2) (aug_2025 4) st1_confirmed \<noteq> []"
    by (simp add: conflictingBookings_def xy x aug_2025_def)
  show "conflictingBookings 11 (aug_2025 3) (aug_2025 5) st1_confirmed = []"
    by (simp add: conflictingBookings_def xy x aug_2025_def)
qed

lemma request_facts:
  "validation_errors (request r ci co g) = []" "body_room (request r ci co g) = r"
  "body_checkInDate (request r ci co g) = ci" "body_checkOutDate (request r ci co g) = co"
  "body_numberOfGuests (request r ci co g) = g"
  by (simp_all add: request_def)

lemma roomA_found: "findRoomById 11 st1_confirmed = Some roomA" "room_isAvailable roomA"
  "maxOccupancy_of roomA = 2" "pricePerNight_of roomA = 100"
  by (simp_all add: findRoomById_def st1_confirmed_summary roomA_def maxOccupancy_of_def
      pricePerNight_of_def or_else_def)

subsection \<open>The overlap query of createBooking\<close>

text \<open>
  C3. In a reachable store, for a request that passed validation, on an existing room whose
  availability flag is on, with check-in before check-out and not in the past:
  \<open>createBooking\<close> fails with \<open>RoomNotAvailable\<close> if and only if some stored booking of
  the same room in status \<open>confirmed\<close> or \<open>checked_in\<close> has an interval that intersects
  \<open>[checkIn, checkOut)\<close> as half-open intervals. The witness is the scenario of the
  specification: a confirmed booking from 1 to 3 August blocks a request from 2 to 4 August
  and does not block a request from 3 to 5 August, which succeeds.
\<close>

theorem createBooking_RoomNotAvailable_iff:
  assumes "reachable st"
    and "validation_errors body = []"
    and "findRoomById (body_room body) st = Some r" and "room_isAvailable r"
    and "body_checkInDate body < body_checkOutDate body"
    and "now e \<le> body_checkInDate body"
  shows "fst (createBooking e body st) = Inl RoomNotAvailable \<longleftrightarrow>
           (\<exists>b \<in> set (bookings st). room b = body_room body
               \<and> (bookingStatus b = ''confirmed'' \<or> bookingStatus b = ''checked_in'')
               \<and> intervals_intersect (checkInDate b) (checkOutDate b)
                     (body_checkInDate body) (body_checkOutDate body))"
proof -
  have "intervals_intersect (checkInDate b) (checkOutDate b)
          (body_checkInDate body) (body_checkOutDate body)
         \<longleftrightarrow> checkInDate b < body_checkOutDate body \<and> checkOutDate b > body_checkInDate body"
    if "b \<in> set (bookings st)" for b
    using reachable_dates_ordered [OF assms(1)] assms(5) that
    by (auto simp: intervals_intersect_def list_all_iff dates_ordered_def)
  then show ?thesis
    unfolding createBooking_checked [OF assms(2-6)] conflictingBookings_nonempty
    by blast
qed

theorem createBooking_RoomNotAvailable_iff_witness:
  "fst (createBooking env0 (request 11 (aug_2025 2) (aug_2025 4) 2) st1_confirmed)
     = Inl RoomNotAvailable
   \<and> fst (createBooking env0 (request 11 (aug_2025 3) (aug_2025 5) 2) st1_confirmed)
     \<noteq> Inl RoomNotAvailable
   \<and> isl (fst (createBooking env0 (request 11 (aug_2025 3) (aug_2025 5) 2) st1_confirmed))
     = False"
proof -
  obtain x where xy: "bookings st1_confirmed = [x]"
    and x: "room x = 11" "checkInDate x = aug_2025 1" "checkOutDate x = aug_2025 3"
      "bookingStatus x = ''confirmed''"
    using st1_confirmed_summary(2) by (auto simp: map_eq_Cons_conv)
  have pre: "validation_errors (request 11 ci co 2) = []"
    "findRoomById (body_room (request 11 ci co 2)) st1_confirmed = Some roomA"
    "room_isAvailable roomA" for ci co
    by (simp_all add: request_facts roomA_found)
  have d24: "body_checkInDate (request 11 (aug_2025 2) (aug_2025 4) 2)
               < body_checkOutDate (request 11 (aug_2025 2) (aug_2025 4) 2)"
    "now env0 \<le> body_checkInDate (request 11 (aug_2025 2) (aug_2025 4) 2)"
    by (simp_all add: request_facts env0_def aug_2025_def jul_1_2025_def)
  have d35: "body_checkInDate (request 11 (aug_2025 3) (aug_2025 5) 2)
               < body_checkOutDate (request 11 (aug_2025 3) (aug_2025 5) 2)"
    "now env0 \<le> body_checkInDate (request 11 (aug_2025 3) (aug_2025 5) 2)"
    by (simp_all add: request_facts env0_def aug_2025_def jul_1_2025_def)
  have a: "fst (createBooking env0 (request 11 (aug_2025 2) (aug_2025 4) 2) st1_confirmed)
     = Inl RoomNotAvailable"
    unfolding createBooking_RoomNotAvailable_iff [OF reachable_st1_confirmed pre d24]
    by (simp add: xy x request_facts intervals_intersect_def aug_2025_def)
  have b: "fst (createBooking env0 (request 11 (aug_2025 3) (aug_2025 5) 2) st1_confirmed)
     \<noteq> Inl RoomNotAvailable"
    unfolding createBooking_RoomNotAvailable_iff [OF reachable_st1_confirmed pre d35]
    by (simp add: xy x request_facts intervals_intersect_def aug_2025_def)
  have c: "isl (fst (createBooking env0 (request 11 (aug_2025 3) (aug_2025 5) 2)
             st1_confirmed)) = False"
    using d35
    by (simp add: createBooking_def request_facts roomA_found st1_confirmed_conflicts Let_def
        case_prod_beta)
  from a b c show ?thesis by blast
qed

subsection \<open>The occupancy check comes after the overlap query\<close>

text \<open>
  C9, as the code has it. For a request that passed validation, on an existing room whose
  availability flag is on, with a valid date range, and with more guests than the room's
  maximum occupancy (\<open>maxOccupancy_of\<close>): the request is always rejected and the store is
  unchanged. The overlap query runs first, so the error is \<open>RoomNotAvailable\<close> when a
  conflicting booking exists, and the occupancy error only when there is none.
\<close>

theorem createBooking_over_occupancy:
  assumes "validation_errors body = []"
    and "findRoomById (body_room body) st = Some r" and "room_isAvailable r"
    and "body_checkInDate body < body_checkOutDate body"
    and "now e \<le> body_checkInDate body"
    and "body_numberOfGuests body > maxOccupancy_of r"
  shows "createBooking e body st =
           (if conflictingBookings (body_room body) (body_checkInDate body)
                 (body_checkOutDate body) st \<noteq> []
            then (Inl RoomNotAvailable, st)
            else (Inl (OccupancyExceeded (maxOccupancy_of r)), st))"
  using assms
  by (simp add: createBooking_def Let_def)

theorem createBooking_over_occupancy_witness:
  "createBooking env0 (request 11 (aug_2025 2) (aug_2025 4) 3) st1_confirmed
     = (Inl RoomNotAvailable, st1_confirmed)
   \<and> createBooking env0 (request 11 (aug_2025 3) (aug_2025 5) 3) st1_confirmed
     = (Inl (OccupancyExceeded 2), st1_confirmed)"
proof -
  have pre: "validation_errors (request 11 ci co 3) = []"
    "findRoomById (body_room (request 11 ci co 3)) st1_confirmed = Some roomA"
    "room_isAvailable roomA" for ci co
    by (simp_all add: request_facts roomA_found)
  have g: "body_numberOfGuests (request 11 ci co 3) > maxOccupancy_of roomA" for ci co
    by (simp add: request_facts roomA_found)
  have d24: "body_checkInDate (request 11 (aug_2025 2) (aug_2025 4) 3)
               < body_checkOutDate (request 11 (aug_2025 2) (aug_2025 4) 3)"
    "now env0 \<le> body_checkInDate (request 11 (aug_2025 2) (aug_2025 4) 3)"
    by (simp_all add: request_facts env0_def aug_2025_def jul_1_2025_def)
  have d35: "body_checkInDate (request 11 (aug_2025 3) (aug_2025 5) 3)
               < body_checkOutDate (request 11 (aug_2025 3) (aug_2025 5) 3)"
    "now env0 \<le> body_checkInDate (request 11 (aug_2025 3) (aug_2025 5) 3)"
    by (simp_all add: request_facts env0_def aug_2025_def jul_1_2025_def)
  show ?thesis
    using createBooking_over_occupancy [OF pre d24 g] createBooking_over_occupancy [OF pre d35 g]
    by (simp add: request_facts roomA_found st1_confirmed_conflicts)
qed

text \<open>
  C9, as the specification states it, fails: with a confirmed booking from 1 to 3 August, a
  request for 2 to 4 August with three guests in a room for two is answered with
  \<open>RoomNotAvailable\<close>, not with the occupancy error.
\<close>

theorem occupancy_error_hidden_by_conflict:
  "maxOccupancy_of roomA < body_numberOfGuests (request 11 (aug_2025 2) (aug_2025 4) 3)
   \<and> fst (createBooking env0 (request 11 (aug_2025 2) (aug_2025 4) 3) st1_confirmed)
       = Inl RoomNotAvailable
   \<and> fst (createBooking env0 (request 11 (aug_2025 2) (aug_2025 4) 3) st1_confirmed)
       \<noteq> Inl (OccupancyExceeded (maxOccupancy_of roomA))"
proof -
  have "now env0 \<le> aug_2025 2" "aug_2025 2 < aug_2025 4"
    by (simp_all add: env0_def aug_2025_def jul_1_2025_def)
  then show ?thesis
    by (simp add: createBooking_def request_facts roomA_found st1_confirmed_conflicts)
qed

subsection \<open>Overlapping bookings of one room\<close>

text \<open>
  C1, as the code has it. When \<open>createBooking\<close> succeeds, the new booking is \<open>pending\<close>
  and its interval does not intersect, as half-open intervals, the interval of any stored
  booking of the same room whose status is \<open>confirmed\<close> or \<open>checked_in\<close>. Nothing more
  is checked: bookings in another status are not part of the overlap query, and the
  handlers that change a status run no overlap query.
\<close>

theorem createBooking_disjoint_from_confirmed:
  assumes "createBooking e body st = (Inr b, st')"
  shows "bookingStatus b = ''pending'' \<and>
         (\<forall>x \<in> set (bookings st).
            room x = room b
              \<and> (bookingStatus x = ''confirmed'' \<or> bookingStatus x = ''checked_in'')
            \<longrightarrow> \<not> intervals_intersect (checkInDate x) (checkOutDate x)
                                       (checkInDate b) (checkOutDate b))"
proof -
  from assms obtain r where
    c: "conflictingBookings (body_room body) (body_checkInDate body)
          (body_checkOutDate body) st = []"
    and f: "room b = body_room body" "checkInDate b = body_checkInDate body"
       "checkOutDate b = body_checkOutDate body" "bookingStatus b = ''pending''"
    by (rule createBooking_success)
  from c have "\<not> (conflictingBookings (room b) (checkInDate b) (checkOutDate b) st \<noteq> [])"
    by (simp add: f)
  then show ?thesis
    unfolding conflictingBookings_nonempty using f(4)
    by (auto simp: intervals_intersect_def)
qed

theorem createBooking_disjoint_from_confirmed_witness:
  "\<exists>b st' x. createBooking env0 (request 11 (aug_2025 3) (aug_2025 5) 2) st1_confirmed
                = (Inr b, st')
      \<and> bookings st1_confirmed = [x] \<and> room x = room b \<and> bookingStatus x = ''confirmed''
      \<and> bookingStatus b = ''pending''
      \<and> \<not> intervals_intersect (checkInDate x) (checkOutDate x) (checkInDate b) (checkOutDate b)"
proof -
  obtain x where xy: "bookings st1_confirmed = [x]"
    and x: "room x = 11" "bookingStatus x = ''confirmed''"
    using st1_confirmed_summary(2) by (auto simp: map_eq_Cons_conv)
  have "now env0 \<le> aug_2025 3" "aug_2025 3 < aug_2025 5"
    by (simp_all add: env0_def aug_2025_def jul_1_2025_def)
  then have "isl (fst (createBooking env0 (request 11 (aug_2025 3) (aug_2025 5) 2)
               st1_confirmed)) = False"
    by (simp add: createBooking_def request_facts roomA_found st1_confirmed_conflicts Let_def
        case_prod_beta)
  then obtain b st' where
    c: "createBooking env0 (request 11 (aug_2025 3) (aug_2025 5) 2) st1_confirmed = (Inr b, st')"
    by (cases "createBooking env0 (request 11 (aug_2025 3) (aug_2025 5) 2) st1_confirmed";
        cases "fst (createBooking env0 (request 11 (aug_2025 3) (aug_2025 5) 2) st1_confirmed)")
       auto
  from c obtain r where rb: "room b = body_room (request 11 (aug_2025 3) (aug_2025 5) 2)"
    by (rule createBooking_success)
  then have rb': "room x = room b" by (simp add: request_facts x)
  from createBooking_disjoint_from_confirmed [OF c] xy x rb'
  have "bookingStatus b = ''pending''"
    "\<not> intervals_intersect (checkInDate x) (checkOutDate x) (checkInDate b) (checkOutDate b)"
    by auto
  with c xy x rb' show ?thesis by blast
qed

text \<open>
  C1, as the specification states it, fails: two requests for the same room and the same
  dates both succeed, since the first booking is still \<open>pending\<close> when the second is
  checked. The store \<open>st2\<close> is reachable and holds two non-cancelled bookings of room 11
  for 1 to 3 August.
\<close>

theorem double_booking_reachable: "reachable st2 \<and> \<not> no_double_booking st2"
proof
  show "reachable st2" by (rule reachable_st2)
next
  obtain x y where xy: "bookings st2 = [x, y]"
    and x: "(oid x, room x, checkInDate x, checkOutDate x, bookingStatus x)
              = (100, 11, aug_2025 1, aug_2025 3, ''pending'')"
    and y: "(oid y, room y, checkInDate y, checkOutDate y, bookingStatus y)
              = (101, 11, aug_2025 1, aug_2025 3, ''pending'')"
    using st2_summary by (auto simp: map_eq_Cons_conv)
  show "\<not> no_double_booking st2"
    unfolding no_double_booking_def xy using x y
    by (auto simp: intervals_intersect_def aug_2025_def)
qed

text \<open>
  The invariant cannot be kept by restricting it to the bookings that the overlap query
  looks at: once both bookings of \<open>st2\<close> are confirmed, which \<open>updateBookingStatus\<close>
  allows, the store holds two confirmed bookings of room 11 for the same dates.
\<close>

lemma confirmed_double_booking_reachable:
  "reachable st2_confirmed \<and> \<not> no_confirmed_double_booking st2_confirmed"
proof
  show "reachable st2_confirmed"
    unfolding st2_confirmed_def
    by (intro reachable.status reachable_st2)
next
  obtain x y where xy: "bookings st2_confirmed = [x, y]"
    and x: "(oid x, room x, checkInDate x, checkOutDate x, bookingStatus x)
              = (100, 11, aug_2025 1, aug_2025 3, ''confirmed'')"
    and y: "(oid y, room y, checkInDate y, checkOutDate y, bookingStatus y)
              = (101, 11, aug_2025 1, aug_2025 3, ''confirmed'')"
    using st2_confirmed_summary by (auto simp: map_eq_Cons_conv)
  show "\<not> no_confirmed_double_booking st2_confirmed"
    unfolding no_confirmed_double_booking_def xy using x y
    by (auto simp: intervals_intersect_def aug_2025_def)
qed

subsection \<open>Pricing\<close>

text \<open>
  C2, as the code has it. For every successful \<open>createBooking\<close> the stored booking has
  \<open>numberOfNights\<close> = the ceiling of (checkOut - checkIn) in days, \<open>subtotal\<close> = nightly
  rate times nights, \<open>taxes\<close> = subtotal times 12/100 and \<open>totalAmount\<close> = subtotal + taxes
  + 25, each stored as computed: no rounding is applied. For a nightly rate of 100 and two
  nights the subtotal is 200, the taxes are 24 and the total is 249.
\<close>

theorem createBooking_pricing:
  assumes "createBooking e body st = (Inr b, st')"
    and "findRoomById (body_room body) st = Some r"
  shows "b \<in> set (bookings st')
       \<and> numberOfNights b
           = \<lceil>(of_int (body_checkOutDate body - body_checkInDate body) :: rat) / 86400000\<rceil>
       \<and> pricePerNight (pricing b) = Some (pricePerNight_of r)
       \<and> subtotal (pricing b) = Some (pricePerNight_of r * of_int (numberOfNights b))
       \<and> taxes (pricing b) = Some (pricePerNight_of r * of_int (numberOfNights b) * (12 / 100))
       \<and> totalAmount (pricing b)
           = Some (pricePerNight_of r * of_int (numberOfNights b)
                   + pricePerNight_of r * of_int (numberOfNights b) * (12 / 100) + 25)
       \<and> (pricePerNight_of r = 100 \<and> numberOfNights b = 2 \<longrightarrow>
            subtotal (pricing b) = Some 200 \<and> taxes (pricing b) = Some 24
            \<and> totalAmount (pricing b) = Some 249)"
proof -
  from assms(1) obtain r' where r': "findRoomById (body_room body) st = Some r'"
    and n: "numberOfNights b = nights (body_checkInDate body) (body_checkOutDate body)"
    and p: "pricing b = pricing_of
           [(''pricePerNight'', JNum (pricePerNight_of r')),
            (''subtotal'', JNum (pricePerNight_of r'
                * of_int (nights (body_checkInDate body) (body_checkOutDate body)))),
            (''taxes'', JNum (pricePerNight_of r'
                * of_int (nights (body_checkInDate body) (body_checkOutDate body)) * (12 / 100))),
            (''serviceFee'', JNum 25),
            (''totalAmount'', JNum (pricePerNight_of r'
                * of_int (nights (body_checkInDate body) (body_checkOutDate body))
                + pricePerNight_of r'
                  * of_int (nights (body_checkInDate body) (body_checkOutDate body)) * (12 / 100)
                + 25)),
            (''currency'', JStr ''USD'')]"
    and m: "b \<in> set (bookings st')"
    by (rule createBooking_success)
  from r' assms(2) have rr: "r' = r" by simp
  have n': "numberOfNights b
      = \<lceil>(of_int (body_checkOutDate body - body_checkInDate body) :: rat) / 86400000\<rceil>"
    by (simp add: n nights_def)
  show ?thesis
    using m n' by (simp add: p rr n [symmetric] pricing_of_def js_prop_def)
qed

theorem createBooking_pricing_witness:
  "\<exists>b st'. createBooking env0 (request 11 (aug_2025 1) (aug_2025 3) 2) (store_with [])
              = (Inr b, st')
      \<and> b \<in> set (bookings st') \<and> numberOfNights b = 2
      \<and> pricePerNight (pricing b) = Some 100 \<and> subtotal (pricing b) = Some 200
      \<and> taxes (pricing b) = Some 24 \<and> totalAmount (pricing b) = Some 249"
proof -
  have f: "findRoomById (body_room (request 11 (aug_2025 1) (aug_2025 3) 2)) (store_with [])
             = Some roomA"
    by (simp add: request_facts findRoomById_def store_with_def roomA_def)
  have "now env0 \<le> aug_2025 1" "aug_2025 1 < aug_2025 3"
    by (simp_all add: env0_def aug_2025_def jul_1_2025_def)
  then have "isl (fst (createBooking env0 (request 11 (aug_2025 1) (aug_2025 3) 2)
               (store_with []))) = False"
    using f
    by (simp add: createBooking_def request_facts roomA_found conflictingBookings_def
        store_with_def Let_def case_prod_beta)
  then obtain b st' where
    c: "createBooking env0 (request 11 (aug_2025 1) (aug_2025 3) 2) (store_with []) = (Inr b, st')"
    by (cases "createBooking env0 (request 11 (aug_2025 1) (aug_2025 3) 2) (store_with [])";
        cases "fst (createBooking env0 (request 11 (aug_2025 1) (aug_2025 3) 2) (store_with []))")
       auto
  have n: "\<lceil>(of_int (body_checkOutDate (request 11 (aug_2025 1) (aug_2025 3) 2)
              - body_checkInDate (request 11 (aug_2025 1) (aug_2025 3) 2)) :: rat) / 86400000\<rceil> = 2"
    by (simp add: request_facts aug_2025_def)
  from createBooking_pricing [OF c f] show ?thesis
    unfolding n using c by (simp add: roomA_found)
qed

lemma round2_example: "round2 (29997 / 2500) = 12"
  by code_simp

text \<open>
  C2, as the specification states it, fails: no value is rounded. For a nightly rate of
  99.99 and one night the stored taxes are 11.9988, where rounding to two decimal places
  gives 12.
\<close>

theorem createBooking_taxes_not_rounded:
  "(case fst (createBooking env0 (request 12 (aug_2025 1) (aug_2025 2) 2) (store_with [])) of
      Inr b \<Rightarrow> taxes (pricing b) | Inl _ \<Rightarrow> None) = Some (29997 / 2500)
   \<and> round2 (29997 / 2500) = 12"
  by (simp add: create_defs scenario_defs round2_example)

subsection \<open>The availability helper\<close>

text \<open>
  C4 fails on \<open>checkRoomAvailability\<close>: its status list holds \<open>checked-in\<close>, a value that
  no booking has (the status is written \<open>checked_in\<close>), and it does not read the room's
  availability flag. With a checked-in guest in room 11 from 1 to 3 August the helper reports
  the room free for 2 to 4 August, and it reports room 13, whose flag is off, free as well;
  \<open>getRoomAvailability\<close> reports both as not available.
\<close>

theorem checkRoomAvailability_ignores_checked_in:
  "checkRoomAvailability 11 (aug_2025 2) (aug_2025 4) None
      (store_with [stay 7 11 (aug_2025 1) (aug_2025 3) ''checked_in''])
   \<and> getRoomAvailability 11 (aug_2025 2) (aug_2025 4)
      (store_with [stay 7 11 (aug_2025 1) (aug_2025 3) ''checked_in'']) = Inr False
   \<and> checkRoomAvailability 13 (aug_2025 2) (aug_2025 4) None (store_with [])
   \<and> getRoomAvailability 13 (aug_2025 2) (aug_2025 4) (store_with []) = Inr False"
  by (simp add: checkRoomAvailability_def getRoomAvailability_def conflictingBookings_def
      findRoomById_def scenario_defs)

text \<open>The endpoint of the room controller does what the helper misses (it has no
  parameter to exclude a booking).\<close>

lemma getRoomAvailability_iff:
  assumes "reachable st" and "findRoomById i st = Some r" and "ci < co"
  shows "getRoomAvailability i ci co st = Inr True \<longleftrightarrow>
           room_isAvailable r
           \<and> \<not> (\<exists>b \<in> set (bookings st). room b = i
                  \<and> (bookingStatus b = ''confirmed'' \<or> bookingStatus b = ''checked_in'')
                  \<and> intervals_intersect (checkInDate b) (checkOutDate b) ci co)"
proof -
  have "intervals_intersect (checkInDate b) (checkOutDate b) ci co
         \<longleftrightarrow> checkInDate b < co \<and> checkOutDate b > ci"
    if "b \<in> set (bookings st)" for b
    using reachable_dates_ordered [OF assms(1)] assms(3) that
    by (auto simp: intervals_intersect_def list_all_iff dates_ordered_def)
  moreover have "getRoomAvailability i ci co st = Inr True \<longleftrightarrow>
      room_isAvailable r \<and> \<not> conflictingBookings i ci co st \<noteq> []"
    using assms(2,3) by (auto simp: getRoomAvailability_def)
  ultimately show ?thesis
    unfolding conflictingBookings_nonempty by blast
qed

subsection \<open>The payment status\<close>

text \<open>
  C5 fails. The route validates the key \<open>paymentStatus\<close> and the handler reads the key
  \<open>status\<close>: a body that names only \<open>paymentStatus\<close> passes the route and is refused by
  the handler. With both keys the handler succeeds, but it assigns the requested status to
  \<open>paymentInfo.status\<close>, which the schema does not declare, so the stored
  \<open>paymentInfo.paymentStatus\<close> stays \<open>pending\<close> while the transaction id and the payment
  date are stored.
\<close>

theorem payment_status_not_stored:
  "patchPaymentRoute env0 7 (paid\<lparr>pb_status := None\<rparr>) two_stays
     = (Inl InvalidPaymentStatus, two_stays)
   \<and> (case fst (patchPaymentRoute env0 7 paid two_stays) of
         Inr b \<Rightarrow> Some (paymentInfo b) | Inl _ \<Rightarrow> None)
      = Some \<lparr>paymentMethod = None, paymentStatus = ''pending'',
               transactionId = Some ''TXN-12345'', paymentDate = Some jul_1_2025,
               cardLastFour = None\<rparr>"
  by (simp add: patchPaymentRoute_def routePaymentErrors_def trim_def is_space_def
      updatePaymentStatus_def validPaymentStatuses_def findById_def set_paymentInfo_def
      save_def preSave_def put_def paymentInfo_of_def js_prop_def Let_def scenario_defs
      paid_def two_stays_def)

lemma updatePaymentStatus_keeps_paymentStatus:
  assumes "findById i st = Some b" and "updatePaymentStatus e i body st = (Inr b', st')"
  shows "paymentStatus (paymentInfo b') = paymentStatus (paymentInfo b)"
  using assms
  by (auto simp: updatePaymentStatus_def Let_def case_prod_beta set_paymentInfo_def
      split: option.splits if_splits)

subsection \<open>The cancellation record\<close>

text \<open>
  C8 fails. \<open>cancelBooking\<close> sets the status to \<open>cancelled\<close> and stores the timestamp
  and the refund amount, but it passes the reason under the key \<open>reason\<close> and the derived
  refund status under the key \<open>refundStatus\<close>; the schema declares \<open>cancellationReason\<close>
  and no refund status, so neither is part of the stored cancellation record.
\<close>

theorem cancelBooking_reason_not_stored:
  "(case fst (cancelBooking env0 7
        \<lparr>cb_reason = Some ''Change of plans'', cb_refundAmount = Some 50\<rparr> two_stays) of
      Inr b \<Rightarrow> Some (bookingStatus b, cancellation b) | Inl _ \<Rightarrow> None)
   = Some (''cancelled'',
           \<lparr>isCancelled = None, cancelledAt = Some jul_1_2025, cancellationReason = None,
            refundAmount = Some 50\<rparr>)"
  by (simp add: cancelBooking_def findById_def cancellation_of_def js_prop_def or_else_def
      or_else_str_def save_def preSave_def put_def Let_def scenario_defs two_stays_def)

lemma cancelBooking_stored:
  assumes "findById i st = Some b"
    and "bookingStatus b \<noteq> ''cancelled''" and "bookingStatus b \<noteq> ''checked_out''"
  shows "\<exists>b'. cancelBooking e i body st = (Inr b', snd (cancelBooking e i body st))
           \<and> findById i (snd (cancelBooking e i body st)) = Some b'
           \<and> bookingStatus b' = ''cancelled''
           \<and> cancelledAt (cancellation b') = Some (now e)
           \<and> refundAmount (cancellation b') = Some (or_else (cb_refundAmount body) 0)
           \<and> cancellationReason (cancellation b') = None"
proof -
  have i: "i = oid b" using findById_oid [OF assms(1)] by simp
  show ?thesis
    using assms unfolding i
    by (simp add: cancelBooking_def Let_def case_prod_beta save_findById cancellation_of_def
        js_prop_def)
qed

end
